theory Spec2Isabelle
  imports Main
begin

section \<open>Python built-ins used by \<^verbatim>\<open>twitter-search-mwe.py\<close>\<close>

text \<open>
  The script is a single Python file. Exceptions are values of the type \<open>error\<close>; a
  computation that may raise returns \<open>error + 'a\<close>, with \<open>Inl\<close> for the exception.
  \<open>TweepyException\<close> stands for whatever the external client library raises.
\<close>

datatype error =
    AttributeError string
  | KeyError string
  | TypeError string
  | TweepyException string

text \<open>\<^verbatim>\<open>sep.join(xs)\<close> on a list of strings.\<close>

fun join :: "string \<Rightarrow> string list \<Rightarrow> string" where
  "join sep [] = []"
| "join sep [x] = x"
| "join sep (x # y # ys) = x @ sep @ join sep (y # ys)"

text \<open>\<^verbatim>\<open>str(n)\<close> on an integer: decimal digits, with a leading minus sign below zero.\<close>

definition digit_char :: "nat \<Rightarrow> char" where
  "digit_char d = char_of (48 + d)"

function str_nat :: "nat \<Rightarrow> string" where
  "str_nat n = (if n < 10 then [digit_char n] else str_nat (n div 10) @ [digit_char (n mod 10)])"
  by pat_completeness auto
termination
  by (relation "measure (\<lambda>n. n)") auto

declare str_nat.simps [simp del]

definition str_int :: "int \<Rightarrow> string" where
  "str_int i = (if i < 0 then CHR ''-'' # str_nat (nat (- i)) else str_nat (nat i))"

text \<open>
  \<^verbatim>\<open>str(xs)\<close> on a list: the \<^verbatim>\<open>repr\<close> of each element, separated by a comma and a
  space, in square brackets. The \<^verbatim>\<open>repr\<close> of the elements is a parameter.
\<close>

definition str_list :: "('a \<Rightarrow> string) \<Rightarrow> 'a list \<Rightarrow> string" where
  "str_list repr_elem xs = ''['' @ join '', '' (map repr_elem xs) @ '']''"

section \<open>Regular expressions, for the pattern of the query string\<close>

text \<open>
  The fragment of Python's \<^verbatim>\<open>re\<close> syntax the pattern of the query string needs, with the
  usual language semantics. \<open>WordChar\<close> is \<^verbatim>\<open>\w\<close> on ASCII text: a letter, a digit or the
  underscore. A string matches the anchored pattern \<^verbatim>\<open>^r$\<close> when it is in \<open>lang r\<close>.
\<close>

datatype rexp =
    Eps
  | Lit char
  | WordChar
  | Seq rexp rexp
  | Star rexp
  | Plus rexp

definition word_char :: "char \<Rightarrow> bool" where
  "word_char c =
     (let n = (of_char c :: nat)
      in (48 \<le> n \<and> n \<le> 57) \<or> (65 \<le> n \<and> n \<le> 90) \<or> n = 95 \<or> (97 \<le> n \<and> n \<le> 122))"

definition conc :: "string set \<Rightarrow> string set \<Rightarrow> string set" where
  "conc A B = {u @ v | u v. u \<in> A \<and> v \<in> B}"

inductive_set star :: "string set \<Rightarrow> string set" for A :: "string set" where
  star_Nil: "[] \<in> star A"
| star_app: "u \<in> A \<Longrightarrow> v \<in> star A \<Longrightarrow> u @ v \<in> star A"

fun lang :: "rexp \<Rightarrow> string set" where
  "lang Eps = {[]}"
| "lang (Lit c) = {[c]}"
| "lang WordChar = {[c] | c. word_char c}"
| "lang (Seq r s) = conc (lang r) (lang s)"
| "lang (Star r) = star (lang r)"
| "lang (Plus r) = conc (lang r) (star (lang r))"

text \<open>A run of literal characters.\<close>

fun lits :: "string \<Rightarrow> rexp" where
  "lits [] = Eps"
| "lits (c # cs) = Seq (Lit c) (lits cs)"

text \<open>\<^verbatim>\<open>\w+ussy\<close>\<close>

definition ussy_term :: rexp where
  "ussy_term = Seq (Plus WordChar) (lits ''ussy'')"

text \<open>\<^verbatim>\<open>^\(\w+ussy( OR \w+ussy)*\) lang:en$\<close>\<close>

definition query_pattern :: rexp where
  "query_pattern =
     Seq (Lit CHR ''('')
       (Seq ussy_term
         (Seq (Star (Seq (lits '' OR '') ussy_term)) (lits '') lang:en'')))"

section \<open>The query builder\<close>

text \<open>
  \<^verbatim>\<open>
  def query_constructor():
      cons = ['c','d','g','j','k','l','m','n','q','r','t','v','x','y','z']
      querussy = '(' + " OR ".join([ x+'ussy' for x in cons]) + ') lang:en'
      return querussy
  \<close>
\<close>

definition cons :: "string list" where
  "cons = [''c'', ''d'', ''g'', ''j'', ''k'', ''l'', ''m'', ''n'', ''q'', ''r'', ''t'', ''v'',
           ''x'', ''y'', ''z'']"

definition query_constructor :: "unit \<Rightarrow> string" where
  "query_constructor u =
     ''('' @ join '' OR '' (map (\<lambda>x. x @ ''ussy'') cons) @ '') lang:en''"

section \<open>Messages of the interpreter's exceptions\<close>

text \<open>
  The messages of the exceptions the interpreter itself raises: a missing attribute, a
  subscript or an iteration on \<^verbatim>\<open>None\<close>, and a \<^verbatim>\<open>__str__\<close> that returns no string.
\<close>

definition no_attribute :: "string \<Rightarrow> string \<Rightarrow> string" where
  "no_attribute cls attr =
     CHR 0x27 # cls @ CHR 0x27 # '' object has no attribute '' @ CHR 0x27 # attr @ [CHR 0x27]"

definition not_subscriptable :: string where
  "not_subscriptable = CHR 0x27 # ''NoneType' object is not subscriptable''"

definition not_iterable :: string where
  "not_iterable = CHR 0x27 # ''NoneType' object is not iterable''"

definition str_non_string :: string where
  "str_non_string = ''__str__ returned non-string (type NoneType)''"

section \<open>The objects of the client library\<close>

text \<open>
  \<^verbatim>\<open>tweepy\<close> is an external library. The script reads five attributes of a tweet
  (\<^verbatim>\<open>id\<close>, \<^verbatim>\<open>text\<close>, \<^verbatim>\<open>author_id\<close>, \<^verbatim>\<open>created_at\<close>, \<^verbatim>\<open>referenced_tweets\<close>), the \<^verbatim>\<open>data\<close>
  of the response of a search (a list of tweets, or \<^verbatim>\<open>None\<close>) and the \<^verbatim>\<open>data\<close> of the
  response of a user lookup (subscripted with \<^verbatim>\<open>'username'\<close>, or \<^verbatim>\<open>None\<close>). The type of
  a timestamp is \<open>'t\<close> and the type of a referenced tweet is \<open>'r\<close>; how they print is a
  parameter of the functions that print them.
\<close>

record ('t, 'r) tweepy_tweet =
  tweet_id :: int
  tweet_text :: string
  author_id :: int
  created_at :: 't
  referenced_tweets :: "'r list option"

record tweepy_user =
  user_data :: "(string \<rightharpoonup> string) option"

record ('t, 'r) tweepy_response =
  response_data :: "('t, 'r) tweepy_tweet list option"

type_synonym kwargs = "(string \<times> string list) list"

text \<open>
  A client offers the two calls the script makes. Each call reads and changes the state of
  the remote service, of type \<open>'n\<close>, and may raise.
\<close>

record ('n, 't, 'r) client =
  search_recent_tweets ::
    "string \<Rightarrow> kwargs \<Rightarrow> 'n \<Rightarrow> (error + ('t, 'r) tweepy_response) \<times> 'n"
  get_user :: "int \<Rightarrow> 'n \<Rightarrow> (error + tweepy_user) \<times> 'n"

text \<open>
  The world the script runs in: the calls made to the client library so far, in order,
  what has been written to standard output, and the state of the remote service.
\<close>

datatype event =
    NewClient string string string string string
  | SearchRecentTweets string kwargs
  | GetUser int

record 'n world =
  calls :: "event list"
  stdout :: string
  net :: 'n

definition call_search_recent_tweets ::
  "('n, 't, 'r) client \<Rightarrow> string \<Rightarrow> kwargs \<Rightarrow> 'n world
     \<Rightarrow> (error + ('t, 'r) tweepy_response) \<times> 'n world" where
  "call_search_recent_tweets client q kw w =
     (case search_recent_tweets client q kw (net w) of
        (res, n) \<Rightarrow> (res, w\<lparr>calls := calls w @ [SearchRecentTweets q kw], net := n\<rparr>))"

definition call_get_user ::
  "('n, 't, 'r) client \<Rightarrow> int \<Rightarrow> 'n world \<Rightarrow> (error + tweepy_user) \<times> 'n world" where
  "call_get_user client i w =
     (case get_user client i (net w) of
        (res, n) \<Rightarrow> (res, w\<lparr>calls := calls w @ [GetUser i], net := n\<rparr>))"

text \<open>\<^verbatim>\<open>print(s)\<close> on a string: the string and a newline go to standard output.\<close>

definition print_line :: "string \<Rightarrow> 'n world \<Rightarrow> 'n world" where
  "print_line s w = w\<lparr>stdout := stdout w @ s @ [CHR 0x0A]\<rparr>"

section \<open>The class \<^verbatim>\<open>Tweet\<close>\<close>

record ('t, 'r) Tweet =
  Tweet_id :: int
  Tweet_text :: string
  Tweet_link :: string
  Tweet_user_id :: int
  Tweet_user_resp :: "tweepy_user option"
  Tweet_user_name :: string
  Tweet_time :: 't
  Tweet_context :: "'r list option"

text \<open>
  \<^verbatim>\<open>
  def __init__(self, tweet, user = None):
      self.id = tweet.id
      self.text = tweet.text
      self.link = 'https://www.twitter.com/user/status/'+str(self.id)
      self.user_id = tweet.author_id
      self.user_resp = user
      self.user_name = user.data['username']
      self.time = tweet.created_at
      self.context = tweet.referenced_tweets
  \<close>
  The parameter \<open>user\<close> is \<open>None\<close> when the caller leaves it out. The only statement that
  can raise is the one that reads \<^verbatim>\<open>user.data['username']\<close>.
\<close>

definition Tweet_init ::
  "('t, 'r) tweepy_tweet \<Rightarrow> tweepy_user option \<Rightarrow> error + ('t, 'r) Tweet" where
  "Tweet_init tweet user =
     (case user of
        None \<Rightarrow> Inl (AttributeError (no_attribute ''NoneType'' ''data''))
      | Some u \<Rightarrow>
          (case user_data u of
             None \<Rightarrow> Inl (TypeError not_subscriptable)
           | Some d \<Rightarrow>
               (case d ''username'' of
                  None \<Rightarrow> Inl (KeyError ''username'')
                | Some name \<Rightarrow>
                    Inr \<lparr>Tweet_id = tweet_id tweet,
                         Tweet_text = tweet_text tweet,
                         Tweet_link =
                           ''https://www.twitter.com/user/status/'' @ str_int (tweet_id tweet),
                         Tweet_user_id = author_id tweet,
                         Tweet_user_resp = user,
                         Tweet_user_name = name,
                         Tweet_time = created_at tweet,
                         Tweet_context = referenced_tweets tweet\<rparr>)))"

text \<open>
  \<^verbatim>\<open>
  def __str__(self):
      string = ''
      if self.context:
          string = string + str(self.context)
          string = string + '\n'
      string = string + self.user_name + ' at ' + str(self.time) + ':\t'
      string = string + self.text + '\n'
      string = string + '\t' + self.link
      return(string)
  \<close>
  \<^verbatim>\<open>if self.context\<close> is false on \<^verbatim>\<open>None\<close> and on the empty list.
\<close>

definition truthy :: "'a list option \<Rightarrow> bool" where
  "truthy v = (case v of None \<Rightarrow> False | Some [] \<Rightarrow> False | Some (x # xs) \<Rightarrow> True)"

definition str_context :: "('r \<Rightarrow> string) \<Rightarrow> 'r list option \<Rightarrow> string" where
  "str_context repr_ref v = (case v of None \<Rightarrow> ''None'' | Some xs \<Rightarrow> str_list repr_ref xs)"

definition Tweet_str :: "('t \<Rightarrow> string) \<Rightarrow> ('r \<Rightarrow> string) \<Rightarrow> ('t, 'r) Tweet \<Rightarrow> string" where
  "Tweet_str str_time repr_ref self =
     (let string = [];
          string = (if truthy (Tweet_context self)
                    then (string @ str_context repr_ref (Tweet_context self)) @ [CHR 0x0A]
                    else string);
          string = string @ Tweet_user_name self @ '' at '' @ str_time (Tweet_time self)
                     @ [CHR '':'', CHR 0x09];
          string = string @ Tweet_text self @ [CHR 0x0A];
          string = string @ [CHR 0x09] @ Tweet_link self
      in string)"

section \<open>The callback \<^verbatim>\<open>response_cleaner\<close>\<close>

text \<open>
  \<^verbatim>\<open>
  def response_cleaner(client, response):
      tweet_list = []
      for tweet in response.data:
          uname = client.get_user(id=tweet.author_id)
          tweet_list.append(Tweet(tweet, user = uname))
      return tweet_list
  \<close>
  \<open>cleaner_loop\<close> is the \<^verbatim>\<open>for\<close> loop, on the tweets still to visit and the list built
  so far. An exception of the lookup or of the constructor leaves the loop.
\<close>

fun cleaner_loop ::
  "('n, 't, 'r) client \<Rightarrow> ('t, 'r) tweepy_tweet list \<Rightarrow> ('t, 'r) Tweet list \<Rightarrow> 'n world
     \<Rightarrow> (error + ('t, 'r) Tweet list) \<times> 'n world" where
  "cleaner_loop client [] tweet_list w = (Inr tweet_list, w)"
| "cleaner_loop client (tweet # rest) tweet_list w =
     (case call_get_user client (author_id tweet) w of
        (Inl e, w') \<Rightarrow> (Inl e, w')
      | (Inr uname, w') \<Rightarrow>
          (case Tweet_init tweet (Some uname) of
             Inl e \<Rightarrow> (Inl e, w')
           | Inr t \<Rightarrow> cleaner_loop client rest (tweet_list @ [t]) w'))"

definition response_cleaner ::
  "('n, 't, 'r) client \<Rightarrow> ('t, 'r) tweepy_response \<Rightarrow> 'n world
     \<Rightarrow> (error + ('t, 'r) Tweet list) \<times> 'n world" where
  "response_cleaner client response w =
     (case response_data response of
        None \<Rightarrow> (Inl (TypeError not_iterable), w)
      | Some tweets \<Rightarrow> cleaner_loop client tweets [] w)"

section \<open>The class \<^verbatim>\<open>Response\<close>\<close>

record ('n, 't, 'r) Response =
  Response_client :: "('n, 't, 'r) client"
  Response_tweets :: "('t, 'r) Tweet list"

text \<open>
  \<^verbatim>\<open>
  def __init__(self, client, response, make_tweets_callback):
      self.client = client
      self.tweets = make_tweets_callback(client, response)
  \<close>
\<close>

definition Response_init ::
  "('n, 't, 'r) client \<Rightarrow> ('t, 'r) tweepy_response
     \<Rightarrow> (('n, 't, 'r) client \<Rightarrow> ('t, 'r) tweepy_response \<Rightarrow> 'n world
           \<Rightarrow> (error + ('t, 'r) Tweet list) \<times> 'n world)
     \<Rightarrow> 'n world \<Rightarrow> (error + ('n, 't, 'r) Response) \<times> 'n world" where
  "Response_init client response make_tweets_callback w =
     (case make_tweets_callback client response w of
        (Inl e, w') \<Rightarrow> (Inl e, w')
      | (Inr tweets, w') \<Rightarrow> (Inr \<lparr>Response_client = client, Response_tweets = tweets\<rparr>, w'))"

text \<open>
  \<^verbatim>\<open>
  def __str__(self):
      for tweet in self.tweets:
          print(tweet)
  \<close>
  \<^verbatim>\<open>print(tweet)\<close> writes \<^verbatim>\<open>Tweet.__str__\<close> of the tweet and a newline. The method has no
  \<^verbatim>\<open>return\<close>: its value is \<^verbatim>\<open>None\<close>, the \<open>None\<close> of the result type \<open>string option\<close>.
\<close>

fun print_tweets ::
  "('t \<Rightarrow> string) \<Rightarrow> ('r \<Rightarrow> string) \<Rightarrow> ('t, 'r) Tweet list \<Rightarrow> 'n world \<Rightarrow> 'n world" where
  "print_tweets str_time repr_ref [] w = w"
| "print_tweets str_time repr_ref (tweet # rest) w =
     print_tweets str_time repr_ref rest (print_line (Tweet_str str_time repr_ref tweet) w)"

definition Response_str ::
  "('t \<Rightarrow> string) \<Rightarrow> ('r \<Rightarrow> string) \<Rightarrow> ('n, 't, 'r) Response \<Rightarrow> 'n world
     \<Rightarrow> string option \<times> 'n world" where
  "Response_str str_time repr_ref self w =
     (None, print_tweets str_time repr_ref (Response_tweets self) w)"

text \<open>
  \<^verbatim>\<open>print(r)\<close> on a \<^verbatim>\<open>Response\<close>: \<^verbatim>\<open>print\<close> calls \<^verbatim>\<open>str(r)\<close>, which runs \<^verbatim>\<open>r.__str__()\<close> and
  raises a \<^verbatim>\<open>TypeError\<close> when the value is not a string; otherwise the string and a newline
  go to standard output.
\<close>

definition print_Response ::
  "('t \<Rightarrow> string) \<Rightarrow> ('r \<Rightarrow> string) \<Rightarrow> ('n, 't, 'r) Response \<Rightarrow> 'n world
     \<Rightarrow> (error + unit) \<times> 'n world" where
  "print_Response str_time repr_ref r w =
     (case Response_str str_time repr_ref r w of
        (None, w') \<Rightarrow> (Inl (TypeError str_non_string), w')
      | (Some s, w') \<Rightarrow> (Inr (), print_line s w'))"

section \<open>The class \<^verbatim>\<open>Query\<close>\<close>

text \<open>
  An attribute that has not been assigned yet is \<open>None\<close>: \<^verbatim>\<open>__init__\<close> assigns
  \<^verbatim>\<open>client\<close> only, \<^verbatim>\<open>new\<close> assigns \<^verbatim>\<open>query\<close> and \<^verbatim>\<open>run\<close> assigns \<^verbatim>\<open>response\<close>.
\<close>

record ('n, 't, 'r) Query =
  Query_client :: "('n, 't, 'r) client"
  Query_query :: "string option"
  Query_response :: "('n, 't, 'r) Response option"

definition Query_init :: "('n, 't, 'r) client \<Rightarrow> ('n, 't, 'r) Query" where
  "Query_init client = \<lparr>Query_client = client, Query_query = None, Query_response = None\<rparr>"

text \<open>
  \<^verbatim>\<open>
  def new(self, constructor_function):
      self.query = constructor_function()
  \<close>
\<close>

definition Query_new :: "('n, 't, 'r) Query \<Rightarrow> (unit \<Rightarrow> string) \<Rightarrow> ('n, 't, 'r) Query" where
  "Query_new self constructor_function = self\<lparr>Query_query := Some (constructor_function ())\<rparr>"

text \<open>
  \<^verbatim>\<open>
  def run(self,**kwargs):
      response = self.client.search_recent_tweets(
              self.query,
              **kwargs
          )
      self.response = Response(self.client,response, response_cleaner)
  \<close>
  The arguments are evaluated before the call: reading \<^verbatim>\<open>self.query\<close> raises when the
  attribute is not there. The result is the outcome, the object after the call and the
  world after the call.
\<close>

definition Query_run ::
  "('n, 't, 'r) Query \<Rightarrow> kwargs \<Rightarrow> 'n world
     \<Rightarrow> (error + unit) \<times> ('n, 't, 'r) Query \<times> 'n world" where
  "Query_run self kw w =
     (case Query_query self of
        None \<Rightarrow> (Inl (AttributeError (no_attribute ''Query'' ''query'')), self, w)
      | Some q \<Rightarrow>
          (case call_search_recent_tweets (Query_client self) q kw w of
             (Inl e, w') \<Rightarrow> (Inl e, self, w')
           | (Inr response, w') \<Rightarrow>
               (case Response_init (Query_client self) response response_cleaner w' of
                  (Inl e, w'') \<Rightarrow> (Inl e, self, w'')
                | (Inr r, w'') \<Rightarrow> (Inr (), self\<lparr>Query_response := Some r\<rparr>, w''))))"

section \<open>The script\<close>

text \<open>
  \<^verbatim>\<open>
  try:
      bearer_token = environ['BEARER_TOKEN']
      consumer_secret = environ['CONSUMER_SECRET']
      consumer_key = environ['CONSUMER_KEY']
      access_token = environ['ACCESS_TOKEN']
      access_token_secret = environ['ACCESS_TOKEN_SECRET']
  except KeyError as e:
      msg = 'Tokens not found. Have you run `source .secrets`?'
      raise AttributeError(msg)
  \<close>
  The result is the five values in the order they are read.
\<close>

definition msg :: string where
  "msg = ''Tokens not found. Have you run `source .secrets`?''"

definition load_tokens ::
  "(string \<rightharpoonup> string) \<Rightarrow> error + (string \<times> string \<times> string \<times> string \<times> string)" where
  "load_tokens environ =
     (case environ ''BEARER_TOKEN'' of
        None \<Rightarrow> Inl (AttributeError msg)
      | Some bearer_token \<Rightarrow>
     (case environ ''CONSUMER_SECRET'' of
        None \<Rightarrow> Inl (AttributeError msg)
      | Some consumer_secret \<Rightarrow>
     (case environ ''CONSUMER_KEY'' of
        None \<Rightarrow> Inl (AttributeError msg)
      | Some consumer_key \<Rightarrow>
     (case environ ''ACCESS_TOKEN'' of
        None \<Rightarrow> Inl (AttributeError msg)
      | Some access_token \<Rightarrow>
     (case environ ''ACCESS_TOKEN_SECRET'' of
        None \<Rightarrow> Inl (AttributeError msg)
      | Some access_token_secret \<Rightarrow>
          Inr (bearer_token, consumer_secret, consumer_key, access_token,
               access_token_secret))))))"

text \<open>
  The body of \<^verbatim>\<open>if __name__ == "__main__"\<close>. \<open>tweepy_Client\<close> is the constructor of the
  library's client, called with the five tokens in the order the script passes them; the
  call is recorded in the world. The last statement is \<^verbatim>\<open>print(query.response)\<close>.
\<close>

definition tweet_fields :: kwargs where
  "tweet_fields = [(''tweet_fields'', [''author_id'', ''created_at'', ''referenced_tweets''])]"

definition main ::
  "(string \<rightharpoonup> string)
     \<Rightarrow> (string \<Rightarrow> string \<Rightarrow> string \<Rightarrow> string \<Rightarrow> string \<Rightarrow> ('n, 't, 'r) client)
     \<Rightarrow> ('t \<Rightarrow> string) \<Rightarrow> ('r \<Rightarrow> string) \<Rightarrow> 'n world \<Rightarrow> (error + unit) \<times> 'n world" where
  "main environ tweepy_Client str_time repr_ref w =
     (case load_tokens environ of
        Inl e \<Rightarrow> (Inl e, w)
      | Inr (bearer_token, consumer_secret, consumer_key, access_token, access_token_secret) \<Rightarrow>
          (let client = tweepy_Client bearer_token consumer_key consumer_secret access_token
                          access_token_secret;
               w1 = w\<lparr>calls := calls w @ [NewClient bearer_token consumer_key consumer_secret
                                            access_token access_token_secret]\<rparr>;
               query = Query_init client;
               query = Query_new query query_constructor
           in (case Query_run query tweet_fields w1 of
                 (Inl e, query, w2) \<Rightarrow> (Inl e, w2)
               | (Inr u, query, w2) \<Rightarrow>
                   (case Query_response query of
                      None \<Rightarrow> (Inl (AttributeError (no_attribute ''Query'' ''response'')), w2)
                    | Some r \<Rightarrow> print_Response str_time repr_ref r w2))))"

section \<open>Example data\<close>

text \<open>
  A tweet with no referenced tweets, a user called \<^verbatim>\<open>bob\<close>, an environment with the five
  tokens, and a client whose search returns two tweets of the same author, the second one
  with a referenced tweet. The remote state counts the calls.
\<close>

definition example_tweet :: "'t \<Rightarrow> ('t, 'r) tweepy_tweet" where
  "example_tweet T =
     \<lparr>tweet_id = 42, tweet_text = ''hi'', author_id = 7, created_at = T,
      referenced_tweets = None\<rparr>"

definition example_reply :: "(string, string) tweepy_tweet" where
  "example_reply =
     \<lparr>tweet_id = 43, tweet_text = ''yo'', author_id = 7, created_at = ''U'',
      referenced_tweets = Some [''<ReferencedTweet id=42 type=replied_to>'']\<rparr>"

definition example_user :: tweepy_user where
  "example_user = \<lparr>user_data = Some [''id'' \<mapsto> ''7'', ''username'' \<mapsto> ''bob'']\<rparr>"

definition example_client :: "(nat, string, string) client" where
  "example_client =
     \<lparr>search_recent_tweets =
        (\<lambda>q kw n. (Inr \<lparr>response_data = Some [example_tweet ''T'', example_reply]\<rparr>, Suc n)),
      get_user = (\<lambda>i n. (Inr example_user, Suc n))\<rparr>"

definition example_environ :: "string \<rightharpoonup> string" where
  "example_environ =
     [''BEARER_TOKEN'' \<mapsto> ''b'', ''CONSUMER_SECRET'' \<mapsto> ''cs'', ''CONSUMER_KEY'' \<mapsto> ''ck'',
      ''ACCESS_TOKEN'' \<mapsto> ''at'', ''ACCESS_TOKEN_SECRET'' \<mapsto> ''ats'']"

definition example_world :: "nat world" where
  "example_world = \<lparr>calls = [], stdout = [], net = 0\<rparr>"

section \<open>Properties of the built-ins\<close>

lemma lang_lits: "s \<in> lang (lits s)"
  by (induction s) (auto simp: conc_def)

lemma concI: "u \<in> A \<Longrightarrow> v \<in> B \<Longrightarrow> u @ v \<in> conc A B"
  by (auto simp: conc_def)

lemma word_plus: "x \<noteq> [] \<Longrightarrow> list_all word_char x \<Longrightarrow> x \<in> lang (Plus WordChar)"
proof (induction x rule: rev_nonempty_induct)
  case (single c)
  have "[c] @ [] \<in> conc (lang WordChar) (star (lang WordChar))"
    using single by (intro concI star_Nil) simp
  then show ?case by simp
next
  case (snoc c cs)
  have star_snoc: "v \<in> star A \<Longrightarrow> a \<in> A \<Longrightarrow> v @ a \<in> star A" for v a and A :: "string set"
  proof (induction rule: star.induct)
    case star_Nil
    then show ?case using star.star_app [OF _ star.star_Nil, of a A] by simp
  next
    case (star_app u v)
    then show ?case using star.star_app [of u A "v @ a"] by simp
  qed
  from snoc have "cs \<in> conc (lang WordChar) (star (lang WordChar))" by simp
  then obtain u v where uv: "cs = u @ v" "u \<in> lang WordChar" "v \<in> star (lang WordChar)"
    by (auto simp: conc_def)
  from snoc.prems have "[c] \<in> lang WordChar" by simp
  with uv(3) have "v @ [c] \<in> star (lang WordChar)" by (rule star_snoc)
  with uv(2) have "u @ (v @ [c]) \<in> conc (lang WordChar) (star (lang WordChar))"
    by (rule concI)
  with uv(1) show ?case by simp
qed

lemma ussy_term_lang:
  "x \<noteq> [] \<Longrightarrow> list_all word_char x \<Longrightarrow> x @ ''ussy'' \<in> lang ussy_term"
  unfolding ussy_term_def lang.simps(4)
  by (intro concI word_plus lang_lits)

lemma or_terms_star:
  "\<forall>x \<in> set xs. x \<noteq> [] \<and> list_all word_char x \<Longrightarrow>
   concat (map (\<lambda>x. '' OR '' @ x @ ''ussy'') xs) \<in> lang (Star (Seq (lits '' OR '') ussy_term))"
proof (induction xs)
  case Nil
  then show ?case by (simp add: star_Nil)
next
  case (Cons x xs)
  have "'' OR '' @ (x @ ''ussy'') \<in> lang (Seq (lits '' OR '') ussy_term)"
    unfolding lang.simps(4) using Cons.prems
    by (intro concI lang_lits ussy_term_lang) simp_all
  moreover have "concat (map (\<lambda>x. '' OR '' @ x @ ''ussy'') xs)
      \<in> star (lang (Seq (lits '' OR '') ussy_term))"
    using Cons by simp
  ultimately have "('' OR '' @ (x @ ''ussy'')) @ concat (map (\<lambda>x. '' OR '' @ x @ ''ussy'') xs)
      \<in> star (lang (Seq (lits '' OR '') ussy_term))"
    by (rule star_app)
  then show ?case by simp
qed

lemma join_Cons: "join sep (x # xs) = x @ concat (map (\<lambda>y. sep @ y) xs)"
  by (induction xs arbitrary: x) simp_all

text \<open>
  For any non-empty list of non-empty stems made of word characters, the string the
  builder's expression assembles matches the pattern.
\<close>

lemma built_query_matches:
  assumes "xs \<noteq> []" and "\<forall>x \<in> set xs. x \<noteq> [] \<and> list_all word_char x"
  shows "''('' @ join '' OR '' (map (\<lambda>x. x @ ''ussy'') xs) @ '') lang:en'' \<in> lang query_pattern"
proof -
  from assms(1) obtain y ys where xs: "xs = y # ys" by (cases xs) auto
  have j: "join '' OR '' (map (\<lambda>x. x @ ''ussy'') xs)
      = (y @ ''ussy'') @ concat (map (\<lambda>x. '' OR '' @ x @ ''ussy'') ys)"
    by (simp add: xs join_Cons comp_def)
  have 1: "y @ ''ussy'' \<in> lang ussy_term"
    using assms(2) by (intro ussy_term_lang) (simp_all add: xs)
  have 2: "concat (map (\<lambda>x. '' OR '' @ x @ ''ussy'') ys)
      \<in> lang (Star (Seq (lits '' OR '') ussy_term))"
    using assms(2) by (intro or_terms_star) (simp add: xs)
  have 3: "'') lang:en'' \<in> lang (lits '') lang:en'')" by (rule lang_lits)
  have "[CHR ''(''] @ ((y @ ''ussy'') @ (concat (map (\<lambda>x. '' OR '' @ x @ ''ussy'') ys)
      @ '') lang:en'')) \<in> lang query_pattern"
    unfolding query_pattern_def lang.simps(4)
    by (intro concI 1 2 3) simp
  then show ?thesis by (simp add: j)
qed

section \<open>Properties of the model\<close>

lemma digit_char_inj: "a < 10 \<Longrightarrow> b < 10 \<Longrightarrow> digit_char a = digit_char b \<Longrightarrow> a = b"
proof -
  assume a: "a < 10" and b: "b < 10" and e: "digit_char a = digit_char b"
  from e have "(of_char (digit_char a) :: nat) = of_char (digit_char b)" by simp
  then have "(48 + a) mod 256 = (48 + b) mod 256"
    by (simp add: digit_char_def)
  with a b show "a = b" by simp
qed

lemma digit_char_not_minus: "d < 10 \<Longrightarrow> digit_char d \<noteq> CHR ''-''"
proof
  assume d: "d < 10" and e: "digit_char d = CHR ''-''"
  from e have "(of_char (digit_char d) :: nat) = of_char (CHR ''-'')" by simp
  then have "(48 + d) mod 256 = 45" by (simp add: digit_char_def)
  with d show False by simp
qed

lemma str_nat_nonempty: "str_nat n \<noteq> []"
  by (subst str_nat.simps) simp

lemma str_nat_no_minus: "CHR ''-'' \<notin> set (str_nat n)"
proof (induction n rule: str_nat.induct)
  case (1 n)
  show ?case
  proof (cases "n < 10")
    case True
    then show ?thesis using digit_char_not_minus [of n] by (subst str_nat.simps) auto
  next
    case False
    then have "CHR ''-'' \<notin> set (str_nat (n div 10))" using 1 by simp
    moreover have "digit_char (n mod 10) \<noteq> CHR ''-''" by (rule digit_char_not_minus) simp
    ultimately show ?thesis using False by (subst str_nat.simps) auto
  qed
qed

lemma str_nat_inj: "str_nat m = str_nat n \<Longrightarrow> m = n"
proof (induction m arbitrary: n rule: str_nat.induct)
  case (1 m)
  show ?case
  proof (cases "m < 10")
    case m: True
    show ?thesis
    proof (cases "n < 10")
      case True
      with m 1(2) show ?thesis
        using digit_char_inj [of m n] by (simp add: str_nat.simps [of m] str_nat.simps [of n])
    next
      case False
      with m 1(2) have "str_nat (n div 10) = []"
        by (simp add: str_nat.simps [of m] str_nat.simps [of n])
      then show ?thesis using str_nat_nonempty by blast
    qed
  next
    case m: False
    show ?thesis
    proof (cases "n < 10")
      case True
      with m 1(2) have "str_nat (m div 10) = []"
        by (simp add: str_nat.simps [of m] str_nat.simps [of n])
      then show ?thesis using str_nat_nonempty by blast
    next
      case False
      with m 1(2) have e: "str_nat (m div 10) = str_nat (n div 10)"
          and d: "digit_char (m mod 10) = digit_char (n mod 10)"
        by (simp_all add: str_nat.simps [of m] str_nat.simps [of n])
      from e have "m div 10 = n div 10" using 1(1) m by simp
      moreover from d have "m mod 10 = n mod 10" by (intro digit_char_inj) simp_all
      ultimately show ?thesis by (metis div_mult_mod_eq)
    qed
  qed
qed

lemma str_int_inj: "str_int i = str_int j \<Longrightarrow> i = j"
proof -
  assume e: "str_int i = str_int j"
  have hd_neg: "hd (str_int k) = CHR ''-''" if "k < 0" for k
    using that by (simp add: str_int_def)
  have hd_pos: "hd (str_int k) \<noteq> CHR ''-''" if "\<not> k < 0" for k
  proof -
    have "hd (str_nat (nat k)) \<in> set (str_nat (nat k))"
      using str_nat_nonempty by simp
    then show ?thesis using that str_nat_no_minus [of "nat k"] by (auto simp: str_int_def)
  qed
  show "i = j"
  proof (cases "i < 0")
    case True
    then have "j < 0" using e hd_neg [of i] hd_pos [of j] by auto
    with True e have "nat (- i) = nat (- j)" by (auto simp: str_int_def dest: str_nat_inj)
    with True \<open>j < 0\<close> show ?thesis by simp
  next
    case False
    then have "\<not> j < 0" using e hd_neg [of j] hd_pos [of i] by auto
    with False e have "nat i = nat j" by (auto simp: str_int_def dest: str_nat_inj)
    with False \<open>\<not> j < 0\<close> show ?thesis by simp
  qed
qed


lemma Tweet_init_Inr:
  "Tweet_init tweet user = Inr p \<longleftrightarrow>
     (\<exists>u d name. user = Some u \<and> user_data u = Some d \<and> d ''username'' = Some name \<and>
        p = \<lparr>Tweet_id = tweet_id tweet, Tweet_text = tweet_text tweet,
             Tweet_link = ''https://www.twitter.com/user/status/'' @ str_int (tweet_id tweet),
             Tweet_user_id = author_id tweet, Tweet_user_resp = user, Tweet_user_name = name,
             Tweet_time = created_at tweet, Tweet_context = referenced_tweets tweet\<rparr>)"
  by (auto simp: Tweet_init_def split: option.splits)

lemma call_get_user_world:
  "call_get_user client i w = (res, w') \<Longrightarrow>
     calls w' = calls w @ [GetUser i] \<and> stdout w' = stdout w"
  by (auto simp: call_get_user_def split: prod.splits)

lemma cleaner_loop_Inr:
  "cleaner_loop client raws acc w = (Inr tweets, w') \<Longrightarrow>
   \<exists>ps. tweets = acc @ ps
     \<and> list_all2 (\<lambda>raw p. \<exists>u. Tweet_init raw (Some u) = Inr p) raws ps
     \<and> calls w' = calls w @ map (\<lambda>t. GetUser (author_id t)) raws
     \<and> stdout w' = stdout w"
proof (induction raws arbitrary: acc w)
  case Nil
  then show ?case by simp
next
  case (Cons raw rest)
  obtain r w1 where c: "call_get_user client (author_id raw) w = (r, w1)"
    by (cases "call_get_user client (author_id raw) w")
  from Cons.prems c obtain uname where r: "r = Inr uname"
    by (cases r) auto
  from Cons.prems c r obtain t where t: "Tweet_init raw (Some uname) = Inr t"
    by (cases "Tweet_init raw (Some uname)") auto
  from Cons.prems c r t have "cleaner_loop client rest (acc @ [t]) w1 = (Inr tweets, w')"
    by simp
  from Cons.IH [OF this] obtain ps where ps: "tweets = (acc @ [t]) @ ps"
      "list_all2 (\<lambda>raw p. \<exists>u. Tweet_init raw (Some u) = Inr p) rest ps"
      "calls w' = calls w1 @ map (\<lambda>t. GetUser (author_id t)) rest"
      "stdout w' = stdout w1"
    by blast
  from call_get_user_world [OF c] have w1: "calls w1 = calls w @ [GetUser (author_id raw)]"
      "stdout w1 = stdout w" by simp_all
  have "tweets = acc @ (t # ps)" using ps(1) by simp
  moreover have "list_all2 (\<lambda>raw p. \<exists>u. Tweet_init raw (Some u) = Inr p) (raw # rest) (t # ps)"
    using ps(2) t by auto
  moreover have "calls w' = calls w @ map (\<lambda>t. GetUser (author_id t)) (raw # rest)"
    using ps(3) w1(1) by simp
  moreover have "stdout w' = stdout w" using ps(4) w1(2) by simp
  ultimately show ?case by blast
qed

lemma cleaner_loop_world:
  "cleaner_loop client raws acc w = (res, w') \<Longrightarrow>
   \<exists>k \<le> length raws. calls w' = calls w @ map (\<lambda>t. GetUser (author_id t)) (take k raws)
     \<and> stdout w' = stdout w"
proof (induction raws arbitrary: acc w)
  case Nil
  then show ?case by simp
next
  case (Cons raw rest)
  obtain r w1 where c: "call_get_user client (author_id raw) w = (r, w1)"
    by (cases "call_get_user client (author_id raw) w")
  from call_get_user_world [OF c] have w1: "calls w1 = calls w @ [GetUser (author_id raw)]"
      "stdout w1 = stdout w" by simp_all
  have one: "calls w1 = calls w @ map (\<lambda>t. GetUser (author_id t)) (take 1 (raw # rest))"
    using w1(1) by simp
  show ?case
  proof (cases r)
    case (Inl e)
    with Cons.prems c have "w' = w1" by simp
    with one w1(2) show ?thesis by (intro exI [of _ 1]) simp
  next
    case (Inr uname)
    show ?thesis
    proof (cases "Tweet_init raw (Some uname)")
      case (Inl e)
      with Cons.prems c Inr have "w' = w1" by simp
      with one w1(2) show ?thesis by (intro exI [of _ 1]) simp
    next
      case t: (Inr t)
      with Cons.prems c Inr have "cleaner_loop client rest (acc @ [t]) w1 = (res, w')"
        by simp
      from Cons.IH [OF this] obtain k where k: "k \<le> length rest"
          "calls w' = calls w1 @ map (\<lambda>t. GetUser (author_id t)) (take k rest)"
          "stdout w' = stdout w1"
        by blast
      then show ?thesis using w1 by (intro exI [of _ "Suc k"]) simp
    qed
  qed
qed


lemma response_cleaner_Inr:
  assumes "response_cleaner client response w = (Inr tweets, w')"
  shows "\<exists>raws. response_data response = Some raws
     \<and> list_all2 (\<lambda>raw p. \<exists>u. Tweet_init raw (Some u) = Inr p) raws tweets
     \<and> calls w' = calls w @ map (\<lambda>t. GetUser (author_id t)) raws
     \<and> stdout w' = stdout w"
proof (cases "response_data response")
  case None
  with assms show ?thesis by (simp add: response_cleaner_def)
next
  case (Some raws)
  with assms have "cleaner_loop client raws [] w = (Inr tweets, w')"
    by (simp add: response_cleaner_def)
  from cleaner_loop_Inr [OF this] Some show ?thesis by simp
qed

lemma response_cleaner_world:
  assumes "response_cleaner client response w = (res, w')"
  shows "\<exists>ids. calls w' = calls w @ map GetUser ids \<and> stdout w' = stdout w"
proof (cases "response_data response")
  case None
  with assms have "w' = w" by (simp add: response_cleaner_def)
  then show ?thesis by (intro exI [of _ "[]"]) simp
next
  case (Some raws)
  with assms have "cleaner_loop client raws [] w = (res, w')"
    by (simp add: response_cleaner_def)
  from cleaner_loop_world [OF this] obtain k where
    "calls w' = calls w @ map (\<lambda>t. GetUser (author_id t)) (take k raws)" "stdout w' = stdout w"
    by blast
  then show ?thesis by (intro exI [of _ "map author_id (take k raws)"]) (simp add: comp_def)
qed

lemma print_tweets_world:
  "print_tweets str_time repr_ref tweets w =
     w\<lparr>stdout := stdout w @ concat (map (\<lambda>t. Tweet_str str_time repr_ref t @ [CHR 0x0A]) tweets)\<rparr>"
  by (induction tweets arbitrary: w) (simp_all add: print_line_def)

lemma Query_run_cases:
  assumes "Query_run self kw w = (res, self', w')"
  obtains
    (no_query) "Query_query self = None"
      "res = Inl (AttributeError (no_attribute ''Query'' ''query''))" "self' = self" "w' = w"
  | (search_failed) q e n where "Query_query self = Some q"
      "search_recent_tweets (Query_client self) q kw (net w) = (Inl e, n)"
      "res = Inl e" "self' = self"
      "w' = w\<lparr>calls := calls w @ [SearchRecentTweets q kw], net := n\<rparr>"
  | (cleaner_failed) q response n e where "Query_query self = Some q"
      "search_recent_tweets (Query_client self) q kw (net w) = (Inr response, n)"
      "response_cleaner (Query_client self) response
         (w\<lparr>calls := calls w @ [SearchRecentTweets q kw], net := n\<rparr>) = (Inl e, w')"
      "res = Inl e" "self' = self"
  | (completed) q response n tweets where "Query_query self = Some q"
      "search_recent_tweets (Query_client self) q kw (net w) = (Inr response, n)"
      "response_cleaner (Query_client self) response
         (w\<lparr>calls := calls w @ [SearchRecentTweets q kw], net := n\<rparr>) = (Inr tweets, w')"
      "res = Inr ()"
      "self' = self\<lparr>Query_response :=
         Some \<lparr>Response_client = Query_client self, Response_tweets = tweets\<rparr>\<rparr>"
proof (cases "Query_query self")
  case None
  then have "Query_run self kw w
      = (Inl (AttributeError (no_attribute ''Query'' ''query'')), self, w)"
    by (simp add: Query_run_def)
  with assms have "res = Inl (AttributeError (no_attribute ''Query'' ''query''))"
      "self' = self" "w' = w"
    by auto
  with None show ?thesis by (rule no_query)
next
  case (Some q)
  obtain r n where s: "search_recent_tweets (Query_client self) q kw (net w) = (r, n)"
    by (cases "search_recent_tweets (Query_client self) q kw (net w)")
  let ?w1 = "w\<lparr>calls := calls w @ [SearchRecentTweets q kw], net := n\<rparr>"
  have c: "call_search_recent_tweets (Query_client self) q kw w = (r, ?w1)"
    by (simp add: call_search_recent_tweets_def s)
  show ?thesis
  proof (cases r)
    case (Inl e)
    with Some c have "Query_run self kw w = (Inl e, self, ?w1)"
      by (simp add: Query_run_def)
    with assms have "res = Inl e" "self' = self" "w' = ?w1" by auto
    with Some s [unfolded Inl] show ?thesis by (rule search_failed)
  next
    case (Inr response)
    obtain r2 w2 where rc: "response_cleaner (Query_client self) response ?w1 = (r2, w2)"
      by (cases "response_cleaner (Query_client self) response ?w1")
    show ?thesis
    proof (cases r2)
      case (Inl e)
      with Some c Inr rc have "Query_run self kw w = (Inl e, self, w2)"
        by (simp add: Query_run_def Response_init_def)
      with assms have e: "res = Inl e" "self' = self" and w2: "w2 = w'" by auto
      from Some s [unfolded Inr] rc [unfolded Inl w2] e show ?thesis
        by (rule cleaner_failed)
    next
      case tw: (Inr tweets)
      with Some c Inr rc have "Query_run self kw w
          = (Inr (), self\<lparr>Query_response :=
               Some \<lparr>Response_client = Query_client self, Response_tweets = tweets\<rparr>\<rparr>, w2)"
        by (simp add: Query_run_def Response_init_def)
      with assms have e: "res = Inr ()" "self' = self\<lparr>Query_response :=
               Some \<lparr>Response_client = Query_client self, Response_tweets = tweets\<rparr>\<rparr>"
        and w2: "w2 = w'" by auto
      from Some s [unfolded Inr] rc [unfolded tw w2] e show ?thesis
        by (rule completed)
    qed
  qed
qed

lemma Query_run_world:
  assumes "Query_run self kw w = (res, self', w')" and "Query_query self = Some q"
  shows "\<exists>ids. calls w' = calls w @ SearchRecentTweets q kw # map GetUser ids
           \<and> stdout w' = stdout w"
  using assms(1)
proof (cases rule: Query_run_cases)
  case no_query
  with assms(2) show ?thesis by simp
next
  case (search_failed q' e n)
  with assms(2) show ?thesis by (intro exI [of _ "[]"]) simp
next
  case (cleaner_failed q' response n e)
  from response_cleaner_world [OF cleaner_failed(3)] cleaner_failed(1) assms(2)
  show ?thesis by auto
next
  case (completed q' response n tweets)
  from response_cleaner_world [OF completed(3)] completed(1) assms(2)
  show ?thesis by auto
qed

lemma list_all2_user_id:
  "list_all2 (\<lambda>raw p. \<exists>u. Tweet_init raw (Some u) = Inr p) raws ps \<Longrightarrow>
   map Tweet_user_id ps = map author_id raws"
  by (induction raws ps rule: list_all2_induct) (auto simp: Tweet_init_Inr)

lemma print_Response_result:
  "print_Response str_time repr_ref r w =
     (Inl (TypeError str_non_string),
      w\<lparr>stdout := stdout w
          @ concat (map (\<lambda>t. Tweet_str str_time repr_ref t @ [CHR 0x0A]) (Response_tweets r))\<rparr>)"
  by (simp add: print_Response_def Response_str_def print_tweets_world)

lemma main_after_run:
  assumes "load_tokens environ = Inr (b, cs, ck, at, ats)"
    and "Query_run (Query_new (Query_init (tweepy_Client b ck cs at ats)) query_constructor)
           tweet_fields (w\<lparr>calls := calls w @ [NewClient b ck cs at ats]\<rparr>) = (Inr u, q', w2)"
  shows "\<exists>r. Query_response q' = Some r
           \<and> main environ tweepy_Client str_time repr_ref w
               = print_Response str_time repr_ref r w2
           \<and> stdout w2 = stdout w"
  using assms(2)
proof (cases rule: Query_run_cases)
  case (completed q response n tweets)
  let ?r = "\<lparr>Response_client = tweepy_Client b ck cs at ats, Response_tweets = tweets\<rparr>"
  have r: "Query_response q' = Some ?r"
    using completed(5) by (simp add: Query_new_def Query_init_def)
  have m: "main environ tweepy_Client str_time repr_ref w = print_Response str_time repr_ref ?r w2"
    using assms r by (simp add: main_def Let_def)
  from Query_run_world [OF assms(2) completed(1)] have "stdout w2 = stdout w" by auto
  with r m show ?thesis by blast
qed simp_all

lemmas example_defs =
  example_client_def example_tweet_def example_reply_def example_user_def example_world_def
  Query_run_def Query_new_def Query_init_def call_search_recent_tweets_def Response_init_def
  response_cleaner_def call_get_user_def Tweet_init_def

lemma example_tokens:
  "load_tokens example_environ = Inr (''b'', ''cs'', ''ck'', ''at'', ''ats'')"
  by (simp add: load_tokens_def example_environ_def)

lemma example_run_after_client:
  "\<exists>q' w2. Query_run (Query_new (Query_init example_client) query_constructor) tweet_fields
       (example_world\<lparr>calls := calls example_world
          @ [NewClient ''b'' ''ck'' ''cs'' ''at'' ''ats'']\<rparr>) = (Inr (), q', w2)"
proof -
  let ?run = "Query_run (Query_new (Query_init example_client) query_constructor) tweet_fields
       (example_world\<lparr>calls := calls example_world
          @ [NewClient ''b'' ''ck'' ''cs'' ''at'' ''ats'']\<rparr>)"
  have "fst ?run = Inr ()" by (simp add: example_defs)
  then show ?thesis by (cases ?run) auto
qed

lemma example_main:
  "main example_environ (\<lambda>a b c d e. example_client) (\<lambda>t. t) (\<lambda>r. r) example_world
     = (Inl (TypeError ''__str__ returned non-string (type NoneType)''),
        \<lparr>calls = [NewClient ''b'' ''ck'' ''cs'' ''at'' ''ats'',
                  SearchRecentTweets (query_constructor ()) tweet_fields,
                  GetUser 7, GetUser 7],
         stdout = ''bob at T:'' @ [CHR 0x09] @ ''hi'' @ [CHR 0x0A, CHR 0x09]
             @ ''https://www.twitter.com/user/status/42'' @ [CHR 0x0A]
             @ ''[<ReferencedTweet id=42 type=replied_to>]'' @ [CHR 0x0A]
             @ ''bob at U:'' @ [CHR 0x09] @ ''yo'' @ [CHR 0x0A, CHR 0x09]
             @ ''https://www.twitter.com/user/status/43'' @ [CHR 0x0A],
         net = 3\<rparr>)"
proof -
  have n: "str_int 42 = ''42''" "str_int 43 = ''43''" by code_simp+
  show ?thesis
    by (simp add: main_def example_tokens Let_def example_defs print_Response_def
        Response_str_def print_line_def Tweet_str_def truthy_def str_context_def str_list_def
        str_non_string_def n)
qed

section \<open>The query builder: its result\<close>

text \<open>
  C1. \<open>query_constructor\<close> takes no input and is a function, so every call returns the
  same string. That string is the stems of the embedded list, each followed by
  \<^verbatim>\<open>ussy\<close>, joined with \<^verbatim>\<open> OR \<close> in the order of the list, in parentheses, followed by
  \<^verbatim>\<open> lang:en\<close>; it is the string written out below, and it matches the pattern
  \<^verbatim>\<open>^\(\w+ussy( OR \w+ussy)*\) lang:en$\<close>.
\<close>

theorem query_constructor_result:
  "query_constructor u = query_constructor v
   \<and> query_constructor u =
      ''('' @ join '' OR '' (map (\<lambda>x. x @ ''ussy'')
        [''c'', ''d'', ''g'', ''j'', ''k'', ''l'', ''m'', ''n'', ''q'', ''r'', ''t'', ''v'',
         ''x'', ''y'', ''z'']) @ '') lang:en''
   \<and> query_constructor u =
      ''(cussy OR dussy OR gussy OR jussy OR kussy OR lussy OR mussy OR nussy OR qussy OR russy OR tussy OR vussy OR xussy OR yussy OR zussy) lang:en''
   \<and> query_constructor u \<in> lang query_pattern"
proof -
  have m: "query_constructor u \<in> lang query_pattern"
    unfolding query_constructor_def
    by (rule built_query_matches) (simp_all add: cons_def word_char_def)
  have e: "query_constructor u =
      ''(cussy OR dussy OR gussy OR jussy OR kussy OR lussy OR mussy OR nussy OR qussy OR russy OR tussy OR vussy OR xussy OR yussy OR zussy) lang:en''"
    by (simp add: query_constructor_def cons_def)
  have d: "query_constructor u =
      ''('' @ join '' OR '' (map (\<lambda>x. x @ ''ussy'')
        [''c'', ''d'', ''g'', ''j'', ''k'', ''l'', ''m'', ''n'', ''q'', ''r'', ''t'', ''v'',
         ''x'', ''y'', ''z'']) @ '') lang:en''"
    unfolding query_constructor_def cons_def by (rule refl)
  show ?thesis using m e d by simp
qed

section \<open>The credential loader\<close>

text \<open>
  C2. When the five variables \<^verbatim>\<open>BEARER_TOKEN\<close>, \<^verbatim>\<open>CONSUMER_SECRET\<close>, \<^verbatim>\<open>CONSUMER_KEY\<close>,
  \<^verbatim>\<open>ACCESS_TOKEN\<close> and \<^verbatim>\<open>ACCESS_TOKEN_SECRET\<close> are all set, loading yields exactly their
  values. When any one of them is missing, loading raises the error whose message asks
  whether \<^verbatim>\<open>source .secrets\<close> has been run, and the script ends with that error in the
  world it started in: no client has been constructed and no call has been made.
\<close>

theorem load_tokens_result:
  "(environ ''BEARER_TOKEN'' = Some b \<and> environ ''CONSUMER_SECRET'' = Some cs
      \<and> environ ''CONSUMER_KEY'' = Some ck \<and> environ ''ACCESS_TOKEN'' = Some at
      \<and> environ ''ACCESS_TOKEN_SECRET'' = Some ats
    \<longrightarrow> load_tokens environ = Inr (b, cs, ck, at, ats))
   \<and> (environ ''BEARER_TOKEN'' = None \<or> environ ''CONSUMER_SECRET'' = None
      \<or> environ ''CONSUMER_KEY'' = None \<or> environ ''ACCESS_TOKEN'' = None
      \<or> environ ''ACCESS_TOKEN_SECRET'' = None
    \<longrightarrow> load_tokens environ
          = Inl (AttributeError ''Tokens not found. Have you run `source .secrets`?'')
        \<and> main environ tweepy_Client str_time repr_ref w
          = (Inl (AttributeError ''Tokens not found. Have you run `source .secrets`?''), w))"
proof (intro conjI impI)
  assume "environ ''BEARER_TOKEN'' = Some b \<and> environ ''CONSUMER_SECRET'' = Some cs
      \<and> environ ''CONSUMER_KEY'' = Some ck \<and> environ ''ACCESS_TOKEN'' = Some at
      \<and> environ ''ACCESS_TOKEN_SECRET'' = Some ats"
  then show "load_tokens environ = Inr (b, cs, ck, at, ats)"
    by (simp add: load_tokens_def)
next
  assume missing: "environ ''BEARER_TOKEN'' = None \<or> environ ''CONSUMER_SECRET'' = None
      \<or> environ ''CONSUMER_KEY'' = None \<or> environ ''ACCESS_TOKEN'' = None
      \<or> environ ''ACCESS_TOKEN_SECRET'' = None"
  then show l: "load_tokens environ
      = Inl (AttributeError ''Tokens not found. Have you run `source .secrets`?'')"
    by (auto simp: load_tokens_def msg_def split: option.splits)
  then show "main environ tweepy_Client str_time repr_ref w
      = (Inl (AttributeError ''Tokens not found. Have you run `source .secrets`?''), w)"
    by (simp add: main_def)
qed

text \<open>
  The example environment has all five variables; without \<^verbatim>\<open>CONSUMER_KEY\<close> the script
  stops with the error and the world untouched.
\<close>

theorem load_tokens_result_witness:
  "load_tokens example_environ = Inr (''b'', ''cs'', ''ck'', ''at'', ''ats'')
   \<and> load_tokens (example_environ(''CONSUMER_KEY'' := None))
       = Inl (AttributeError ''Tokens not found. Have you run `source .secrets`?'')
   \<and> main (example_environ(''CONSUMER_KEY'' := None)) (\<lambda>a b c d e. example_client) id id
        example_world
       = (Inl (AttributeError ''Tokens not found. Have you run `source .secrets`?''),
          example_world)"
proof -
  have all: "example_environ ''BEARER_TOKEN'' = Some ''b''
      \<and> example_environ ''CONSUMER_SECRET'' = Some ''cs''
      \<and> example_environ ''CONSUMER_KEY'' = Some ''ck''
      \<and> example_environ ''ACCESS_TOKEN'' = Some ''at''
      \<and> example_environ ''ACCESS_TOKEN_SECRET'' = Some ''ats''"
    by (simp add: example_environ_def)
  have none: "(example_environ(''CONSUMER_KEY'' := None)) ''CONSUMER_KEY'' = None"
    by simp
  from load_tokens_result [of example_environ "''b''" "''cs''" "''ck''" "''at''" "''ats''"] all
  have 1: "load_tokens example_environ = Inr (''b'', ''cs'', ''ck'', ''at'', ''ats'')"
    by blast
  from load_tokens_result [of "example_environ(''CONSUMER_KEY'' := None)" _ _ _ _ _
      "\<lambda>a b c d e. example_client" id id example_world] none
  have 2: "load_tokens (example_environ(''CONSUMER_KEY'' := None))
       = Inl (AttributeError ''Tokens not found. Have you run `source .secrets`?'')
     \<and> main (example_environ(''CONSUMER_KEY'' := None)) (\<lambda>a b c d e. example_client) id id
        example_world
       = (Inl (AttributeError ''Tokens not found. Have you run `source .secrets`?''),
          example_world)"
    by blast
  from 1 2 show ?thesis by simp
qed

section \<open>The result formatter\<close>

text \<open>
  C3. For a tweet whose \<^verbatim>\<open>referenced_tweets\<close> is \<^verbatim>\<open>None\<close> or the empty list and a user
  whose data has the username \<open>u\<close>, the constructor succeeds and the rendering has no
  context line: it is \<open>u\<close>, \<^verbatim>\<open> at \<close>, the timestamp, a colon and a tab, the text, a
  newline, a tab and the permalink. For the tweet with id 42, text \<^verbatim>\<open>hi\<close>, author 7,
  timestamp \<open>T\<close> and no referenced tweets, and the user \<^verbatim>\<open>bob\<close>, the rendering is
  \<^verbatim>\<open>bob at T:\thi\n\thttps://www.twitter.com/user/status/42\<close>, with \<open>T\<close> printed by
  \<open>str_time\<close>.
\<close>

theorem Tweet_str_no_context:
  "(referenced_tweets tweet = None \<or> referenced_tweets tweet = Some [] \<longrightarrow>
      user_data user = Some d \<longrightarrow> d ''username'' = Some u \<longrightarrow>
      (\<exists>p. Tweet_init tweet (Some user) = Inr p
         \<and> Tweet_str str_time repr_ref p
             = u @ '' at '' @ str_time (created_at tweet) @ [CHR '':'', CHR 0x09]
                 @ tweet_text tweet @ [CHR 0x0A]
                 @ [CHR 0x09] @ ''https://www.twitter.com/user/status/''
                 @ str_int (tweet_id tweet)))
   \<and> (\<exists>p. Tweet_init
           \<lparr>tweet_id = 42, tweet_text = ''hi'', author_id = 7, created_at = T,
            referenced_tweets = None\<rparr>
           (Some \<lparr>user_data = Some [''id'' \<mapsto> ''7'', ''username'' \<mapsto> ''bob'']\<rparr>) = Inr p
         \<and> Tweet_str str_time repr_ref p
             = ''bob at '' @ str_time T @ [CHR '':'', CHR 0x09] @ ''hi'' @ [CHR 0x0A]
                 @ [CHR 0x09] @ ''https://www.twitter.com/user/status/42'')"
proof (intro conjI impI)
  assume ctx: "referenced_tweets tweet = None \<or> referenced_tweets tweet = Some []"
    and d: "user_data user = Some d" and u: "d ''username'' = Some u"
  from ctx have "\<not> truthy (referenced_tweets tweet)" by (auto simp: truthy_def)
  with d u show "\<exists>p. Tweet_init tweet (Some user) = Inr p
         \<and> Tweet_str str_time repr_ref p
             = u @ '' at '' @ str_time (created_at tweet) @ [CHR '':'', CHR 0x09]
                 @ tweet_text tweet @ [CHR 0x0A]
                 @ [CHR 0x09] @ ''https://www.twitter.com/user/status/''
                 @ str_int (tweet_id tweet)"
    by (simp add: Tweet_init_def Tweet_str_def)
next
  have "str_int 42 = ''42''" by code_simp
  then show "\<exists>p. Tweet_init
           \<lparr>tweet_id = 42, tweet_text = ''hi'', author_id = 7, created_at = T,
            referenced_tweets = None\<rparr>
           (Some \<lparr>user_data = Some [''id'' \<mapsto> ''7'', ''username'' \<mapsto> ''bob'']\<rparr>) = Inr p
         \<and> Tweet_str str_time repr_ref p
             = ''bob at '' @ str_time T @ [CHR '':'', CHR 0x09] @ ''hi'' @ [CHR 0x0A]
                 @ [CHR 0x09] @ ''https://www.twitter.com/user/status/42''"
    by (simp add: Tweet_init_def Tweet_str_def truthy_def)
qed


text \<open>The same example with a timestamp that prints as \<^verbatim>\<open>T\<close>.\<close>

theorem Tweet_str_no_context_witness:
  "(referenced_tweets (example_tweet ''T'' :: (string, string) tweepy_tweet) = None
      \<or> referenced_tweets (example_tweet ''T'' :: (string, string) tweepy_tweet) = Some [])
   \<and> user_data example_user = Some [''id'' \<mapsto> ''7'', ''username'' \<mapsto> ''bob'']
   \<and> [''id'' \<mapsto> ''7'', ''username'' \<mapsto> ''bob''] ''username'' = Some ''bob''
   \<and> (\<exists>p. Tweet_init (example_tweet ''T'' :: (string, string) tweepy_tweet) (Some example_user)
            = Inr p
        \<and> Tweet_str (\<lambda>t. t) (\<lambda>r. r) p
            = ''bob at T:'' @ [CHR 0x09] @ ''hi'' @ [CHR 0x0A, CHR 0x09]
                @ ''https://www.twitter.com/user/status/42'')"
proof -
  let ?tw = "example_tweet ''T'' :: (string, string) tweepy_tweet"
  have ctx: "referenced_tweets ?tw = None \<or> referenced_tweets ?tw = Some []"
    by (simp add: example_tweet_def)
  have d: "user_data example_user = Some [''id'' \<mapsto> ''7'', ''username'' \<mapsto> ''bob'']"
    by (simp add: example_user_def)
  have u: "[''id'' \<mapsto> ''7'', ''username'' \<mapsto> ''bob''] ''username'' = Some ''bob''"
    by simp
  have n: "str_int 42 = ''42''" by code_simp
  from Tweet_str_no_context [of ?tw example_user _ "''bob''" "\<lambda>t. t" "\<lambda>r. r"] ctx d u
  have "\<exists>p. Tweet_init ?tw (Some example_user) = Inr p
      \<and> Tweet_str (\<lambda>t. t) (\<lambda>r. r) p
          = ''bob'' @ '' at '' @ created_at ?tw @ [CHR '':'', CHR 0x09]
              @ tweet_text ?tw @ [CHR 0x0A]
              @ [CHR 0x09] @ ''https://www.twitter.com/user/status/''
              @ str_int (tweet_id ?tw)"
    by blast
  then have "\<exists>p. Tweet_init ?tw (Some example_user) = Inr p
      \<and> Tweet_str (\<lambda>t. t) (\<lambda>r. r) p
          = ''bob at T:'' @ [CHR 0x09] @ ''hi'' @ [CHR 0x0A, CHR 0x09]
              @ ''https://www.twitter.com/user/status/42''"
    by (simp add: example_tweet_def n)
  with ctx d u show ?thesis by blast
qed

section \<open>The permalink\<close>

text \<open>
  C4. The permalink of a constructed tweet is \<^verbatim>\<open>https://www.twitter.com/user/status/\<close>
  followed by \<^verbatim>\<open>str(id)\<close>, a function of the id alone, and two constructed tweets have the
  same permalink exactly when their ids are equal: distinct ids give distinct permalinks.
\<close>

theorem permalink_injective:
  "Tweet_init t1 u1 = Inr p1 \<Longrightarrow> Tweet_init t2 u2 = Inr p2 \<Longrightarrow>
     Tweet_link p1 = ''https://www.twitter.com/user/status/'' @ str_int (tweet_id t1)
     \<and> Tweet_link p2 = ''https://www.twitter.com/user/status/'' @ str_int (tweet_id t2)
     \<and> (Tweet_link p1 = Tweet_link p2 \<longleftrightarrow> tweet_id t1 = tweet_id t2)"
  by (auto simp: Tweet_init_Inr dest: str_int_inj)

text \<open>The tweets with ids 42 and 43 have different permalinks.\<close>

theorem permalink_injective_witness:
  "(\<exists>p1 p2.
      Tweet_init (example_tweet ''T'' :: (string, string) tweepy_tweet) (Some example_user)
        = Inr p1
      \<and> Tweet_init example_reply (Some example_user) = Inr p2
      \<and> Tweet_link p1 = ''https://www.twitter.com/user/status/42''
      \<and> Tweet_link p2 = ''https://www.twitter.com/user/status/43''
      \<and> Tweet_link p1 \<noteq> Tweet_link p2)"
proof -
  let ?tw = "example_tweet ''T'' :: (string, string) tweepy_tweet"
  obtain p1 where p1: "Tweet_init ?tw (Some example_user) = Inr p1"
    by (simp add: Tweet_init_def example_user_def)
  obtain p2 where p2: "Tweet_init example_reply (Some example_user) = Inr p2"
    by (simp add: Tweet_init_def example_user_def)
  have n: "str_int 42 = ''42''" "str_int 43 = ''43''" by code_simp+
  from permalink_injective [OF p1 p2]
  have "Tweet_link p1 = ''https://www.twitter.com/user/status/42''
      \<and> Tweet_link p2 = ''https://www.twitter.com/user/status/43''
      \<and> Tweet_link p1 \<noteq> Tweet_link p2"
    by (simp add: example_tweet_def example_reply_def n)
  with p1 p2 show ?thesis by blast
qed

section \<open>The constructor needs a user\<close>

text \<open>
  C9. \<^verbatim>\<open>Tweet(tweet)\<close> with \<open>user\<close> left at its default \<^verbatim>\<open>None\<close> fails for every tweet,
  because \<^verbatim>\<open>user.data\<close> is read unconditionally. The constructor succeeds exactly when
  \<open>user\<close> is a profile whose data has the key \<^verbatim>\<open>'username'\<close>.
\<close>

theorem Tweet_init_requires_user:
  "Tweet_init tweet None = Inl (AttributeError (no_attribute ''NoneType'' ''data''))
   \<and> ((\<exists>p. Tweet_init tweet user = Inr p)
        \<longleftrightarrow> (\<exists>u d name. user = Some u \<and> user_data u = Some d \<and> d ''username'' = Some name))"
  by (auto simp: Tweet_init_def split: option.splits)

section \<open>The author of a formatted post\<close>

text \<open>
  C5. The \<^verbatim>\<open>user_id\<close> of every constructed tweet is the \<^verbatim>\<open>author_id\<close> of the raw tweet it
  was made from. This holds for the list \<open>response_cleaner\<close> returns, position by
  position, and for the batch the session holds after a run.
\<close>

theorem user_id_is_author_id:
  "(Tweet_init tweet user = Inr p \<longrightarrow> Tweet_user_id p = author_id tweet)
   \<and> (response_cleaner client response w = (Inr tweets, w') \<longrightarrow>
        (\<exists>raws. response_data response = Some raws
           \<and> map Tweet_user_id tweets = map author_id raws))
   \<and> (Query_run self kw w = (Inr u, self', w') \<longrightarrow>
        (\<exists>q response n raws r. Query_query self = Some q
           \<and> search_recent_tweets (Query_client self) q kw (net w) = (Inr response, n)
           \<and> response_data response = Some raws
           \<and> Query_response self' = Some r
           \<and> map Tweet_user_id (Response_tweets r) = map author_id raws))"
proof (intro conjI impI)
  assume "Tweet_init tweet user = Inr p"
  then show "Tweet_user_id p = author_id tweet" by (auto simp: Tweet_init_Inr)
next
  assume "response_cleaner client response w = (Inr tweets, w')"
  from response_cleaner_Inr [OF this] show "\<exists>raws. response_data response = Some raws
      \<and> map Tweet_user_id tweets = map author_id raws"
    by (auto dest: list_all2_user_id)
next
  assume "Query_run self kw w = (Inr u, self', w')"
  then show "\<exists>q response n raws r. Query_query self = Some q
      \<and> search_recent_tweets (Query_client self) q kw (net w) = (Inr response, n)
      \<and> response_data response = Some raws
      \<and> Query_response self' = Some r
      \<and> map Tweet_user_id (Response_tweets r) = map author_id raws"
  proof (cases rule: Query_run_cases)
    case (completed q response n tweets)
    from response_cleaner_Inr [OF completed(3)] obtain raws where
      "response_data response = Some raws" "map Tweet_user_id tweets = map author_id raws"
      by (auto dest: list_all2_user_id)
    with completed show ?thesis by simp
  qed simp_all
qed

text \<open>The example batch: both posts have the author 7 of their raw tweets.\<close>

theorem user_id_is_author_id_witness:
  "(\<exists>p. Tweet_init (example_tweet ''T'' :: (string, string) tweepy_tweet) (Some example_user)
          = Inr p
        \<and> Tweet_user_id p = 7)
   \<and> (\<exists>tweets w'.
        response_cleaner example_client
          \<lparr>response_data = Some [example_tweet ''T'', example_reply]\<rparr> example_world
          = (Inr tweets, w')
        \<and> map Tweet_user_id tweets = [7, 7])
   \<and> (\<exists>self' w' r.
        Query_run (Query_new (Query_init example_client) query_constructor) tweet_fields
          example_world = (Inr (), self', w')
        \<and> Query_response self' = Some r
        \<and> map Tweet_user_id (Response_tweets r) = [7, 7])"
proof (intro conjI)
  let ?tw = "example_tweet ''T'' :: (string, string) tweepy_tweet"
  obtain p where p: "Tweet_init ?tw (Some example_user) = Inr p"
    by (simp add: Tweet_init_def example_user_def)
  from user_id_is_author_id [THEN conjunct1, rule_format, OF p]
  have "Tweet_user_id p = 7" by (simp add: example_tweet_def)
  with p show "\<exists>p. Tweet_init ?tw (Some example_user) = Inr p \<and> Tweet_user_id p = 7"
    by blast
next
  let ?resp = "\<lparr>response_data = Some [example_tweet ''T'', example_reply]\<rparr>"
  have "fst (response_cleaner example_client ?resp example_world) = Inr
      (projr (fst (response_cleaner example_client ?resp example_world)))"
    by (simp add: example_defs)
  then obtain tweets w' where
    c: "response_cleaner example_client ?resp example_world = (Inr tweets, w')"
    by (cases "response_cleaner example_client ?resp example_world") auto
  from user_id_is_author_id [THEN conjunct2, THEN conjunct1, rule_format, OF c]
  have "map Tweet_user_id tweets = [7, 7]"
    by (simp add: example_tweet_def example_reply_def)
  with c show "\<exists>tweets w'. response_cleaner example_client ?resp example_world = (Inr tweets, w')
      \<and> map Tweet_user_id tweets = [7, 7]"
    by (intro exI [of _ tweets] exI [of _ w']) simp
next
  let ?q = "Query_new (Query_init example_client) query_constructor"
  have "fst (Query_run ?q tweet_fields example_world) = Inr ()"
    by (simp add: example_defs)
  then obtain self' w' where r: "Query_run ?q tweet_fields example_world = (Inr (), self', w')"
    by (cases "Query_run ?q tweet_fields example_world") auto
  from user_id_is_author_id [THEN conjunct2, THEN conjunct2, rule_format, OF r]
  obtain r' where "Query_response self' = Some r'"
    "map Tweet_user_id (Response_tweets r') = [7, 7]"
    by (auto simp: example_defs)
  with r show "\<exists>self' w' r. Query_run ?q tweet_fields example_world = (Inr (), self', w')
      \<and> Query_response self' = Some r \<and> map Tweet_user_id (Response_tweets r) = [7, 7]"
    by (intro exI [of _ self'] exI [of _ w'] exI [of _ r']) simp
qed

section \<open>One lookup for each result\<close>




section \<open>Rendering the response\<close>

text \<open>
  C7. \<^verbatim>\<open>Response.__str__\<close> prints each tweet of the batch, in the order of the batch, to
  standard output, and changes nothing else in the world. When the tokens are loaded and
  the run succeeds, the last step of the script renders the response the session holds
  after the run: what the script has written is the rendering of that batch.
\<close>

theorem response_is_printed:
  "snd (Response_str str_time repr_ref r w)
     = w\<lparr>stdout := stdout w
         @ concat (map (\<lambda>t. Tweet_str str_time repr_ref t @ [CHR 0x0A]) (Response_tweets r))\<rparr>
   \<and> (load_tokens environ = Inr (b, cs, ck, at, ats) \<longrightarrow>
      Query_run (Query_new (Query_init (tweepy_Client b ck cs at ats)) query_constructor)
        tweet_fields (w\<lparr>calls := calls w @ [NewClient b ck cs at ats]\<rparr>) = (Inr u, q', w2) \<longrightarrow>
      (\<exists>r. Query_response q' = Some r
         \<and> snd (main environ tweepy_Client str_time repr_ref w)
             = snd (Response_str str_time repr_ref r w2)
         \<and> stdout (snd (main environ tweepy_Client str_time repr_ref w))
             = stdout w
               @ concat (map (\<lambda>t. Tweet_str str_time repr_ref t @ [CHR 0x0A])
                   (Response_tweets r))))"
proof (intro conjI impI)
  show p: "snd (Response_str str_time repr_ref r w)
     = w\<lparr>stdout := stdout w
         @ concat (map (\<lambda>t. Tweet_str str_time repr_ref t @ [CHR 0x0A]) (Response_tweets r))\<rparr>"
    for r and w :: "'a world"
    by (simp add: Response_str_def print_tweets_world)
  assume l: "load_tokens environ = Inr (b, cs, ck, at, ats)"
    and r: "Query_run (Query_new (Query_init (tweepy_Client b ck cs at ats)) query_constructor)
        tweet_fields (w\<lparr>calls := calls w @ [NewClient b ck cs at ats]\<rparr>) = (Inr u, q', w2)"
  from main_after_run [where tweepy_Client = tweepy_Client and str_time = str_time
      and repr_ref = repr_ref, OF l r] obtain r' where
    r': "Query_response q' = Some r'"
      "main environ tweepy_Client str_time repr_ref w = print_Response str_time repr_ref r' w2"
      "stdout w2 = stdout w"
    by blast
  have "snd (main environ tweepy_Client str_time repr_ref w)
      = snd (Response_str str_time repr_ref r' w2)"
    by (simp add: r'(2) print_Response_result p)
  moreover from this have "stdout (snd (main environ tweepy_Client str_time repr_ref w))
      = stdout w
        @ concat (map (\<lambda>t. Tweet_str str_time repr_ref t @ [CHR 0x0A]) (Response_tweets r'))"
    by (simp add: p r'(3))
  ultimately show "\<exists>r. Query_response q' = Some r
         \<and> snd (main environ tweepy_Client str_time repr_ref w)
             = snd (Response_str str_time repr_ref r w2)
         \<and> stdout (snd (main environ tweepy_Client str_time repr_ref w))
             = stdout w
               @ concat (map (\<lambda>t. Tweet_str str_time repr_ref t @ [CHR 0x0A])
                   (Response_tweets r))"
    using r'(1) by blast
qed

text \<open>The example run prints the two posts, the second one with its context line.\<close>

theorem response_is_printed_witness:
  "load_tokens example_environ = Inr (''b'', ''cs'', ''ck'', ''at'', ''ats'')
   \<and> (\<exists>q' w2 r.
        Query_run (Query_new (Query_init example_client) query_constructor) tweet_fields
          (example_world\<lparr>calls := calls example_world
             @ [NewClient ''b'' ''ck'' ''cs'' ''at'' ''ats'']\<rparr>) = (Inr (), q', w2)
        \<and> Query_response q' = Some r
        \<and> stdout (snd (main example_environ (\<lambda>a b c d e. example_client) (\<lambda>t. t) (\<lambda>r. r)
              example_world))
            = stdout example_world
              @ concat (map (\<lambda>t. Tweet_str (\<lambda>t. t) (\<lambda>r. r) t @ [CHR 0x0A])
                  (Response_tweets r)))
   \<and> stdout (snd (main example_environ (\<lambda>a b c d e. example_client) (\<lambda>t. t) (\<lambda>r. r)
         example_world))
       = ''bob at T:'' @ [CHR 0x09] @ ''hi'' @ [CHR 0x0A, CHR 0x09]
           @ ''https://www.twitter.com/user/status/42'' @ [CHR 0x0A]
           @ ''[<ReferencedTweet id=42 type=replied_to>]'' @ [CHR 0x0A]
           @ ''bob at U:'' @ [CHR 0x09] @ ''yo'' @ [CHR 0x0A, CHR 0x09]
           @ ''https://www.twitter.com/user/status/43'' @ [CHR 0x0A]"
proof (intro conjI)
  show "load_tokens example_environ = Inr (''b'', ''cs'', ''ck'', ''at'', ''ats'')"
    by (rule example_tokens)
next
  from example_run_after_client obtain q' w2 where
    r: "Query_run (Query_new (Query_init ((\<lambda>a b c d e. example_client)
            ''b'' ''ck'' ''cs'' ''at'' ''ats'')) query_constructor) tweet_fields
          (example_world\<lparr>calls := calls example_world
             @ [NewClient ''b'' ''ck'' ''cs'' ''at'' ''ats'']\<rparr>) = (Inr (), q', w2)"
    by auto
  from response_is_printed [where tweepy_Client = "\<lambda>a b c d e. example_client"
      and str_time = "\<lambda>t. t" and repr_ref = "\<lambda>r. r",
      THEN conjunct2, rule_format, OF example_tokens r]
  obtain r' where "Query_response q' = Some r'"
    "stdout (snd (main example_environ (\<lambda>a b c d e. example_client) (\<lambda>t. t) (\<lambda>r. r)
        example_world))
      = stdout example_world
        @ concat (map (\<lambda>t. Tweet_str (\<lambda>t. t) (\<lambda>r. r) t @ [CHR 0x0A]) (Response_tweets r'))"
    by blast
  with r show "\<exists>q' w2 r.
        Query_run (Query_new (Query_init example_client) query_constructor) tweet_fields
          (example_world\<lparr>calls := calls example_world
             @ [NewClient ''b'' ''ck'' ''cs'' ''at'' ''ats'']\<rparr>) = (Inr (), q', w2)
        \<and> Query_response q' = Some r
        \<and> stdout (snd (main example_environ (\<lambda>a b c d e. example_client) (\<lambda>t. t) (\<lambda>r. r)
              example_world))
            = stdout example_world
              @ concat (map (\<lambda>t. Tweet_str (\<lambda>t. t) (\<lambda>r. r) t @ [CHR 0x0A])
                  (Response_tweets r))"
    by (intro exI [of _ q'] exI [of _ w2] exI [of _ r']) simp
next
  show "stdout (snd (main example_environ (\<lambda>a b c d e. example_client) (\<lambda>t. t) (\<lambda>r. r)
         example_world))
       = ''bob at T:'' @ [CHR 0x09] @ ''hi'' @ [CHR 0x0A, CHR 0x09]
           @ ''https://www.twitter.com/user/status/42'' @ [CHR 0x0A]
           @ ''[<ReferencedTweet id=42 type=replied_to>]'' @ [CHR 0x0A]
           @ ''bob at U:'' @ [CHR 0x09] @ ''yo'' @ [CHR 0x0A, CHR 0x09]
           @ ''https://www.twitter.com/user/status/43'' @ [CHR 0x0A]"
    by (simp add: example_main)
qed

section \<open>The value of \<^verbatim>\<open>Response.__str__\<close>\<close>

text \<open>
  C8. \<^verbatim>\<open>Response.__str__\<close> returns \<^verbatim>\<open>None\<close> for every response, so printing a response
  raises a \<^verbatim>\<open>TypeError\<close> after the lines of the tweets have been written. When the tokens
  are loaded and the run succeeds, the script therefore ends with that \<^verbatim>\<open>TypeError\<close>, with
  the tweets of the response already on standard output. This holds whether or not the
  response is empty, so in particular for every non-empty one.
\<close>

theorem str_returns_None:
  "fst (Response_str str_time repr_ref r w) = None
   \<and> print_Response str_time repr_ref r w
       = (Inl (TypeError ''__str__ returned non-string (type NoneType)''),
          w\<lparr>stdout := stdout w
              @ concat (map (\<lambda>t. Tweet_str str_time repr_ref t @ [CHR 0x0A])
                  (Response_tweets r))\<rparr>)
   \<and> (load_tokens environ = Inr (b, cs, ck, at, ats) \<longrightarrow>
      Query_run (Query_new (Query_init (tweepy_Client b ck cs at ats)) query_constructor)
        tweet_fields (w\<lparr>calls := calls w @ [NewClient b ck cs at ats]\<rparr>) = (Inr u, q', w2) \<longrightarrow>
      (\<exists>r. Query_response q' = Some r
         \<and> main environ tweepy_Client str_time repr_ref w
             = (Inl (TypeError ''__str__ returned non-string (type NoneType)''),
                w2\<lparr>stdout := stdout w2
                    @ concat (map (\<lambda>t. Tweet_str str_time repr_ref t @ [CHR 0x0A])
                        (Response_tweets r))\<rparr>)))"
proof (intro conjI impI)
  show "fst (Response_str str_time repr_ref r w) = None"
    by (simp add: Response_str_def)
  show "print_Response str_time repr_ref r w
       = (Inl (TypeError ''__str__ returned non-string (type NoneType)''),
          w\<lparr>stdout := stdout w
              @ concat (map (\<lambda>t. Tweet_str str_time repr_ref t @ [CHR 0x0A])
                  (Response_tweets r))\<rparr>)"
    by (simp add: print_Response_result str_non_string_def)
  assume l: "load_tokens environ = Inr (b, cs, ck, at, ats)"
    and r: "Query_run (Query_new (Query_init (tweepy_Client b ck cs at ats)) query_constructor)
        tweet_fields (w\<lparr>calls := calls w @ [NewClient b ck cs at ats]\<rparr>) = (Inr u, q', w2)"
  from main_after_run [where tweepy_Client = tweepy_Client and str_time = str_time
      and repr_ref = repr_ref, OF l r] obtain r' where
    r': "Query_response q' = Some r'"
      "main environ tweepy_Client str_time repr_ref w = print_Response str_time repr_ref r' w2"
    by blast
  then show "\<exists>r. Query_response q' = Some r
         \<and> main environ tweepy_Client str_time repr_ref w
             = (Inl (TypeError ''__str__ returned non-string (type NoneType)''),
                w2\<lparr>stdout := stdout w2
                    @ concat (map (\<lambda>t. Tweet_str str_time repr_ref t @ [CHR 0x0A])
                        (Response_tweets r))\<rparr>)"
    by (simp add: print_Response_result str_non_string_def)
qed

text \<open>The example run, with a non-empty response, ends with the \<^verbatim>\<open>TypeError\<close>.\<close>

theorem str_returns_None_witness:
  "load_tokens example_environ = Inr (''b'', ''cs'', ''ck'', ''at'', ''ats'')
   \<and> (\<exists>q' w2 r.
        Query_run (Query_new (Query_init example_client) query_constructor) tweet_fields
          (example_world\<lparr>calls := calls example_world
             @ [NewClient ''b'' ''ck'' ''cs'' ''at'' ''ats'']\<rparr>) = (Inr (), q', w2)
        \<and> Query_response q' = Some r
        \<and> Response_tweets r \<noteq> []
        \<and> main example_environ (\<lambda>a b c d e. example_client) (\<lambda>t. t) (\<lambda>r. r) example_world
            = (Inl (TypeError ''__str__ returned non-string (type NoneType)''),
               w2\<lparr>stdout := stdout w2
                   @ concat (map (\<lambda>t. Tweet_str (\<lambda>t. t) (\<lambda>r. r) t @ [CHR 0x0A])
                       (Response_tweets r))\<rparr>))
   \<and> fst (main example_environ (\<lambda>a b c d e. example_client) (\<lambda>t. t) (\<lambda>r. r) example_world)
       = Inl (TypeError ''__str__ returned non-string (type NoneType)'')
   \<and> stdout (snd (main example_environ (\<lambda>a b c d e. example_client) (\<lambda>t. t) (\<lambda>r. r)
         example_world))
       = ''bob at T:'' @ [CHR 0x09] @ ''hi'' @ [CHR 0x0A, CHR 0x09]
           @ ''https://www.twitter.com/user/status/42'' @ [CHR 0x0A]
           @ ''[<ReferencedTweet id=42 type=replied_to>]'' @ [CHR 0x0A]
           @ ''bob at U:'' @ [CHR 0x09] @ ''yo'' @ [CHR 0x0A, CHR 0x09]
           @ ''https://www.twitter.com/user/status/43'' @ [CHR 0x0A]"
proof (intro conjI)
  show "load_tokens example_environ = Inr (''b'', ''cs'', ''ck'', ''at'', ''ats'')"
    by (rule example_tokens)
next
  from example_run_after_client obtain q' w2 where
    r: "Query_run (Query_new (Query_init ((\<lambda>a b c d e. example_client)
            ''b'' ''ck'' ''cs'' ''at'' ''ats'')) query_constructor) tweet_fields
          (example_world\<lparr>calls := calls example_world
             @ [NewClient ''b'' ''ck'' ''cs'' ''at'' ''ats'']\<rparr>) = (Inr (), q', w2)"
    by auto
  from str_returns_None [where tweepy_Client = "\<lambda>a b c d e. example_client"
      and str_time = "\<lambda>t. t" and repr_ref = "\<lambda>r. r",
      THEN conjunct2, THEN conjunct2, rule_format, OF example_tokens r]
  obtain r' where r': "Query_response q' = Some r'"
    "main example_environ (\<lambda>a b c d e. example_client) (\<lambda>t. t) (\<lambda>r. r) example_world
       = (Inl (TypeError ''__str__ returned non-string (type NoneType)''),
          w2\<lparr>stdout := stdout w2
              @ concat (map (\<lambda>t. Tweet_str (\<lambda>t. t) (\<lambda>r. r) t @ [CHR 0x0A])
                  (Response_tweets r'))\<rparr>)"
    by blast
  from r r'(1) have "Response_tweets r' \<noteq> []"
    by (auto simp: example_defs)
  with r r' show "\<exists>q' w2 r.
        Query_run (Query_new (Query_init example_client) query_constructor) tweet_fields
          (example_world\<lparr>calls := calls example_world
             @ [NewClient ''b'' ''ck'' ''cs'' ''at'' ''ats'']\<rparr>) = (Inr (), q', w2)
        \<and> Query_response q' = Some r
        \<and> Response_tweets r \<noteq> []
        \<and> main example_environ (\<lambda>a b c d e. example_client) (\<lambda>t. t) (\<lambda>r. r) example_world
            = (Inl (TypeError ''__str__ returned non-string (type NoneType)''),
               w2\<lparr>stdout := stdout w2
                   @ concat (map (\<lambda>t. Tweet_str (\<lambda>t. t) (\<lambda>r. r) t @ [CHR 0x0A])
                       (Response_tweets r))\<rparr>)"
    by (intro exI [of _ q'] exI [of _ w2] exI [of _ r']) simp
next
  show "fst (main example_environ (\<lambda>a b c d e. example_client) (\<lambda>t. t) (\<lambda>r. r) example_world)
       = Inl (TypeError ''__str__ returned non-string (type NoneType)'')"
    by (simp add: example_main)
next
  show "stdout (snd (main example_environ (\<lambda>a b c d e. example_client) (\<lambda>t. t) (\<lambda>r. r)
         example_world))
       = ''bob at T:'' @ [CHR 0x09] @ ''hi'' @ [CHR 0x0A, CHR 0x09]
           @ ''https://www.twitter.com/user/status/42'' @ [CHR 0x0A]
           @ ''[<ReferencedTweet id=42 type=replied_to>]'' @ [CHR 0x0A]
           @ ''bob at U:'' @ [CHR 0x09] @ ''yo'' @ [CHR 0x0A, CHR 0x09]
           @ ''https://www.twitter.com/user/status/43'' @ [CHR 0x0A]"
    by (simp add: example_main)
qed

section \<open>\<^verbatim>\<open>run\<close> needs \<^verbatim>\<open>new\<close>\<close>

text \<open>
  C10. A fresh \<^verbatim>\<open>Query\<close> has no \<^verbatim>\<open>query\<close> attribute, and \<^verbatim>\<open>run\<close> on an instance without
  it fails with an \<^verbatim>\<open>AttributeError\<close>, leaving the instance and the world as they were.
  After \<^verbatim>\<open>new\<close>, \<^verbatim>\<open>run\<close> issues the search with the stored query string and the given
  keyword arguments, followed only by user lookups; when it returns, the session's
  \<^verbatim>\<open>response\<close> is the new batch, whatever it held before, and \<^verbatim>\<open>query\<close> is unchanged.
\<close>

theorem run_requires_new:
  "Query_query (Query_init client) = None
   \<and> (Query_query self = None \<longrightarrow>
        Query_run self kw w
          = (Inl (AttributeError (no_attribute ''Query'' ''query'')), self, w))
   \<and> (Query_run (Query_new self f) kw w = (res, self', w') \<longrightarrow>
        (\<exists>ids. calls w' = calls w @ SearchRecentTweets (f ()) kw # map GetUser ids)
        \<and> (res = Inr () \<longrightarrow>
             (\<exists>response n tweets.
                search_recent_tweets (Query_client self) (f ()) kw (net w) = (Inr response, n)
                \<and> response_cleaner (Query_client self) response
                     (w\<lparr>calls := calls w @ [SearchRecentTweets (f ()) kw], net := n\<rparr>)
                     = (Inr tweets, w')
                \<and> self' = self\<lparr>Query_query := Some (f ()),
                     Query_response :=
                       Some \<lparr>Response_client = Query_client self, Response_tweets = tweets\<rparr>\<rparr>)))"
proof (intro conjI impI)
  show "Query_query (Query_init client) = None" by (simp add: Query_init_def)
next
  assume "Query_query self = None"
  then show "Query_run self kw w
      = (Inl (AttributeError (no_attribute ''Query'' ''query'')), self, w)"
    by (simp add: Query_run_def)
next
  assume r: "Query_run (Query_new self f) kw w = (res, self', w')"
  have q: "Query_query (Query_new self f) = Some (f ())" by (simp add: Query_new_def)
  from Query_run_world [OF r q]
  show "\<exists>ids. calls w' = calls w @ SearchRecentTweets (f ()) kw # map GetUser ids"
    by blast
next
  assume r: "Query_run (Query_new self f) kw w = (res, self', w')" and ok: "res = Inr ()"
  from r show "\<exists>response n tweets.
      search_recent_tweets (Query_client self) (f ()) kw (net w) = (Inr response, n)
      \<and> response_cleaner (Query_client self) response
           (w\<lparr>calls := calls w @ [SearchRecentTweets (f ()) kw], net := n\<rparr>) = (Inr tweets, w')
      \<and> self' = self\<lparr>Query_query := Some (f ()),
           Query_response :=
             Some \<lparr>Response_client = Query_client self, Response_tweets = tweets\<rparr>\<rparr>"
  proof (cases rule: Query_run_cases)
    case (completed q response n tweets)
    then show ?thesis by (simp add: Query_new_def)
  qed (use ok in \<open>simp_all add: Query_new_def\<close>)
qed


text \<open>
  On the example client, \<^verbatim>\<open>run\<close> before \<^verbatim>\<open>new\<close> fails; after \<^verbatim>\<open>new\<close> it searches once,
  looks the author up twice and stores the two posts.
\<close>

theorem run_requires_new_witness:
  "Query_run (Query_init example_client) tweet_fields example_world
     = (Inl (AttributeError (no_attribute ''Query'' ''query'')), Query_init example_client,
        example_world)
   \<and> (\<exists>self' w' tweets.
        Query_run (Query_new (Query_init example_client) query_constructor) tweet_fields
          example_world = (Inr (), self', w')
        \<and> calls w' = [SearchRecentTweets (query_constructor ()) tweet_fields,
                       GetUser 7, GetUser 7]
        \<and> Query_query self' = Some (query_constructor ())
        \<and> Query_response self'
            = Some \<lparr>Response_client = example_client, Response_tweets = tweets\<rparr>
        \<and> map Tweet_id tweets = [42, 43])"
proof (intro conjI)
  have "Query_query (Query_init example_client) = None"
    by (rule run_requires_new [THEN conjunct1])
  from run_requires_new [THEN conjunct2, THEN conjunct1, rule_format, OF this]
  show "Query_run (Query_init example_client) tweet_fields example_world
     = (Inl (AttributeError (no_attribute ''Query'' ''query'')), Query_init example_client,
        example_world)" .
next
  let ?q = "Query_new (Query_init example_client) query_constructor"
  have "fst (Query_run ?q tweet_fields example_world) = Inr ()"
    by (simp add: example_defs)
  then obtain self' w' where r: "Query_run ?q tweet_fields example_world = (Inr (), self', w')"
    by (cases "Query_run ?q tweet_fields example_world") auto
  from run_requires_new [THEN conjunct2, THEN conjunct2, rule_format, OF r]
  obtain response n tweets where
    s: "search_recent_tweets (Query_client (Query_init example_client)) (query_constructor ())
          tweet_fields (net example_world) = (Inr response, n)"
    and c: "response_cleaner (Query_client (Query_init example_client)) response
          (example_world\<lparr>calls := calls example_world
             @ [SearchRecentTweets (query_constructor ()) tweet_fields], net := n\<rparr>)
          = (Inr tweets, w')"
    and q: "self' = (Query_init example_client)\<lparr>Query_query := Some (query_constructor ()),
          Query_response := Some \<lparr>Response_client = Query_client (Query_init example_client),
            Response_tweets = tweets\<rparr>\<rparr>"
    by blast
  from s have resp: "response = \<lparr>response_data = Some [example_tweet ''T'', example_reply]\<rparr>"
    by (auto simp: Query_init_def example_client_def)
  from c have "calls w' = [SearchRecentTweets (query_constructor ()) tweet_fields,
      GetUser 7, GetUser 7] \<and> map Tweet_id tweets = [42, 43]"
    unfolding resp
    by (auto simp: Query_init_def example_client_def example_tweet_def example_reply_def
        example_user_def example_world_def response_cleaner_def call_get_user_def
        Tweet_init_def)
  moreover from q have "Query_query self' = Some (query_constructor ())"
    "Query_response self' = Some \<lparr>Response_client = example_client, Response_tweets = tweets\<rparr>"
    by (simp_all add: Query_init_def)
  ultimately show "\<exists>self' w' tweets.
        Query_run (Query_new (Query_init example_client) query_constructor) tweet_fields
          example_world = (Inr (), self', w')
        \<and> calls w' = [SearchRecentTweets (query_constructor ()) tweet_fields,
                       GetUser 7, GetUser 7]
        \<and> Query_query self' = Some (query_constructor ())
        \<and> Query_response self'
            = Some \<lparr>Response_client = example_client, Response_tweets = tweets\<rparr>
        \<and> map Tweet_id tweets = [42, 43]"
    using r by (intro exI [of _ self'] exI [of _ w'] exI [of _ tweets]) simp
qed

end
